theory Spec2Isabelle
  imports Main
begin

section \<open>Python values\<close>

text \<open>
  The values that \<^verbatim>\<open>response.json()\<close> can return, and that the handlers of
  \<^verbatim>\<open>weather.py\<close> inspect: \<^verbatim>\<open>None\<close>, a bool, an int, a float, a str, a list or a
  dict with str keys. A str is its UTF-8 byte sequence. A dict is the list of its items in
  insertion order (keys distinct, as in a Python dict); \<open>map_of\<close> looks a key up.
  A float is sign, mantissa and binary exponent, or an infinity, or NaN; no arithmetic is
  done on it.
\<close>

datatype pyfloat = Finite bool nat int | Infinity bool | NaN

datatype pyval =
    PNone
  | PBool bool
  | PInt int
  | PFloat pyfloat
  | PStr string
  | PList "pyval list"
  | PDict "(string \<times> pyval) list"

text \<open>
  The exceptions that can arise, all of them subclasses of \<^verbatim>\<open>Exception\<close>:
  the three raised by operations on values, and the four failure modes of an HTTP exchange
  (no connection, timeout, \<^verbatim>\<open>raise_for_status\<close> on a non-success status, a body that
  is not JSON).
\<close>

datatype py_error =
    KeyError string
  | TypeError
  | AttributeError
  | ConnectError
  | TimeoutException
  | HTTPStatusError nat
  | JSONDecodeError

type_synonym 'a result = "py_error + 'a"

definition and_then :: "'a result \<Rightarrow> ('a \<Rightarrow> 'b result) \<Rightarrow> 'b result" where
  "and_then r f = (case r of Inl e \<Rightarrow> Inl e | Inr v \<Rightarrow> f v)"

subsection \<open>Truth value, membership, subscript, slice, iteration, get\<close>

text \<open>\<^verbatim>\<open>bool(v)\<close>, as used by \<^verbatim>\<open>not v\<close>.\<close>

fun truthy :: "pyval \<Rightarrow> bool" where
  "truthy PNone = False"
| "truthy (PBool b) = b"
| "truthy (PInt i) = (i \<noteq> 0)"
| "truthy (PFloat (Finite s m e)) = (m \<noteq> 0)"
| "truthy (PFloat (Infinity s)) = True"
| "truthy (PFloat NaN) = True"
| "truthy (PStr s) = (s \<noteq> [])"
| "truthy (PList xs) = (xs \<noteq> [])"
| "truthy (PDict kvs) = (kvs \<noteq> [])"

fun is_prefix :: "string \<Rightarrow> string \<Rightarrow> bool" where
  "is_prefix [] ys = True"
| "is_prefix (x # xs) [] = False"
| "is_prefix (x # xs) (y # ys) = (x = y \<and> is_prefix xs ys)"

fun is_substring :: "string \<Rightarrow> string \<Rightarrow> bool" where
  "is_substring xs [] = (xs = [])"
| "is_substring xs (y # ys) = (is_prefix xs (y # ys) \<or> is_substring xs ys)"

text \<open>
  \<^verbatim>\<open>k in v\<close> for a str \<open>k\<close>: a key of a dict, an element of a list, a substring of a
  str; \<^verbatim>\<open>TypeError\<close> (not iterable) on None, bool, int and float.
\<close>

fun py_in :: "string \<Rightarrow> pyval \<Rightarrow> bool result" where
  "py_in k (PDict kvs) = Inr (map_of kvs k \<noteq> None)"
| "py_in k (PList xs) = Inr (List.member xs (PStr k))"
| "py_in k (PStr s) = Inr (is_substring k s)"
| "py_in k v = Inl TypeError"

text \<open>
  \<^verbatim>\<open>v[k]\<close> for a str \<open>k\<close>: the value under the key of a dict, \<^verbatim>\<open>KeyError\<close> when the
  key is missing; \<^verbatim>\<open>TypeError\<close> on every other value (a list or str wants an integer
  index, the rest is not subscriptable).
\<close>

fun subscript :: "pyval \<Rightarrow> string \<Rightarrow> pyval result" where
  "subscript (PDict kvs) k = (case map_of kvs k of None \<Rightarrow> Inl (KeyError k) | Some v \<Rightarrow> Inr v)"
| "subscript v k = Inl TypeError"

text \<open>The code points of a str: each lead byte with the continuation bytes after it.\<close>

definition is_continuation :: "char \<Rightarrow> bool" where
  "is_continuation c = (128 \<le> (of_char c :: nat) \<and> (of_char c :: nat) < 192)"

fun code_points :: "string \<Rightarrow> string list" where
  "code_points [] = []"
| "code_points (c # cs) =
     (case code_points cs of
        [] \<Rightarrow> [[c]]
      | g # gs \<Rightarrow> (if is_continuation (hd g) then (c # g) # gs else [c] # g # gs))"

text \<open>
  \<^verbatim>\<open>v[:5]\<close>: the first five elements of a list, the first five code points of a str.
  A dict raises (\<^verbatim>\<open>TypeError\<close>, unhashable slice; \<^verbatim>\<open>KeyError\<close> from Python 3.12 on),
  the other values are not subscriptable.
\<close>

fun slice5 :: "pyval \<Rightarrow> pyval result" where
  "slice5 (PList xs) = Inr (PList (take 5 xs))"
| "slice5 (PStr s) = Inr (PStr (concat (take 5 (code_points s))))"
| "slice5 v = Inl TypeError"

text \<open>
  \<^verbatim>\<open>for x in v\<close>: the elements of a list, the keys of a dict, the one-character strs of
  a str; \<^verbatim>\<open>TypeError\<close> on the values that are not iterable.
\<close>

fun iterate :: "pyval \<Rightarrow> pyval list result" where
  "iterate (PList xs) = Inr xs"
| "iterate (PDict kvs) = Inr (map (\<lambda>kv. PStr (fst kv)) kvs)"
| "iterate (PStr s) = Inr (map PStr (code_points s))"
| "iterate v = Inl TypeError"

text \<open>\<^verbatim>\<open>v.get(k, d)\<close>: only a dict has the method.\<close>

fun dict_get :: "pyval \<Rightarrow> string \<Rightarrow> pyval \<Rightarrow> pyval result" where
  "dict_get (PDict kvs) k d = Inr (case map_of kvs k of None \<Rightarrow> d | Some v \<Rightarrow> v)"
| "dict_get v k d = Inl AttributeError"

subsection \<open>Text of a value\<close>

fun digits :: "nat \<Rightarrow> string" where
  "digits n =
     (if n < 10 then [''0123456789'' ! n]
      else digits (n div 10) @ [''0123456789'' ! (n mod 10)])"

declare digits.simps [simp del]

definition int_str :: "int \<Rightarrow> string" where
  "int_str i = (if i < 0 then ''-'' @ digits (nat (- i)) else digits (nat i))"

text \<open>
  What a replacement field \<^verbatim>\<open>{v}\<close> of an f-string puts into the text, that is
  \<^verbatim>\<open>str(v)\<close>: a str is inserted as it is, None, a bool and an int by their literal. For a
  float, a list and a dict \<^verbatim>\<open>str\<close> is \<^verbatim>\<open>repr\<close>, which depends on the shortest
  round-trip digits of floats and on the quoting of strs; it is the parameter \<open>repr\<close>,
  and every theorem below holds for every \<open>repr\<close>.
\<close>

fun py_str :: "(pyval \<Rightarrow> string) \<Rightarrow> pyval \<Rightarrow> string" where
  "py_str repr (PStr s) = s"
| "py_str repr PNone = ''None''"
| "py_str repr (PBool b) = (if b then ''True'' else ''False'')"
| "py_str repr (PInt i) = int_str i"
| "py_str repr v = repr v"

text \<open>\<^verbatim>\<open>sep.join(xs)\<close>\<close>

fun join :: "string \<Rightarrow> string list \<Rightarrow> string" where
  "join sep [] = []"
| "join sep [x] = x"
| "join sep (x # y # ys) = x @ sep @ join sep (y # ys)"

section \<open>The request helper\<close>

definition NWS_API_BASE :: string where
  "NWS_API_BASE = ''https://api.weather.gov''"

definition USER_AGENT :: string where
  "USER_AGENT = ''weather-app/1.0''"

record request =
  url :: string
  headers :: "(string \<times> string) list"
  timeout :: nat

record response =
  status_code :: nat
  json :: "pyval result"

text \<open>
  The network is a parameter. It answers a GET request with an exception of the client
  (\<open>Inl\<close>) or with a response, whose \<open>json\<close> is what \<^verbatim>\<open>response.json()\<close> returns or
  raises. The answer may depend on the calls made before: the log holds the argument of
  every call of \<open>make_nws_request\<close> so far, oldest first.
\<close>

type_synonym log = "pyval list"

type_synonym network = "log \<Rightarrow> request \<Rightarrow> response result"

text \<open>\<^verbatim>\<open>response.raise_for_status()\<close> of httpx: every status outside 2xx raises.\<close>

definition raise_for_status :: "response \<Rightarrow> response result" where
  "raise_for_status r =
     (if 200 \<le> status_code r \<and> status_code r \<le> 299 then Inr r
      else Inl (HTTPStatusError (status_code r)))"

text \<open>
  \<^verbatim>\<open>client.get(url, headers=headers, timeout=30.0)\<close>: httpx raises \<^verbatim>\<open>TypeError\<close> for
  a url that is not a str, before anything is sent.
\<close>

definition client_get :: "network \<Rightarrow> log \<Rightarrow> pyval \<Rightarrow> (string \<times> string) list \<Rightarrow> nat \<Rightarrow> response result" where
  "client_get net lg u hs t =
     (case u of
        PStr s \<Rightarrow> net lg \<lparr>url = s, headers = hs, timeout = t\<rparr>
      | _ \<Rightarrow> Inl TypeError)"

text \<open>The body of the \<^verbatim>\<open>try\<close> block of \<open>make_nws_request\<close>.\<close>

definition try_request :: "network \<Rightarrow> log \<Rightarrow> pyval \<Rightarrow> pyval result" where
  "try_request net lg u =
     (let hs = [(''User-Agent'', USER_AGENT), (''Accept'', ''application/geo+json'')] in
      and_then (client_get net lg u hs 30) (\<lambda>response.
      and_then (raise_for_status response) (\<lambda>_.
      json response)))"

text \<open>
  \<open>make_nws_request\<close>: \<^verbatim>\<open>except Exception: return None\<close> turns every exception of the
  \<^verbatim>\<open>try\<close> block into \<open>PNone\<close>. The call is appended to the log.
\<close>

definition make_nws_request :: "network \<Rightarrow> pyval \<Rightarrow> log \<Rightarrow> pyval \<times> log" where
  "make_nws_request net u lg =
     (case try_request net lg u of
        Inl e \<Rightarrow> (PNone, lg @ [u])
      | Inr v \<Rightarrow> (v, lg @ [u]))"

section \<open>Formatting\<close>

definition format_alert :: "(pyval \<Rightarrow> string) \<Rightarrow> pyval \<Rightarrow> string result" where
  "format_alert repr feature =
     and_then (subscript feature ''properties'') (\<lambda>props.
     and_then (dict_get props ''event'' (PStr ''Unknown'')) (\<lambda>event.
     and_then (dict_get props ''areaDesc'' (PStr ''Unknown'')) (\<lambda>area.
     and_then (dict_get props ''severity'' (PStr ''Unknown'')) (\<lambda>severity.
     and_then (dict_get props ''description'' (PStr ''No description available'')) (\<lambda>description.
     and_then (dict_get props ''instruction'' (PStr ''No specific instructions provided'')) (\<lambda>instruction.
     Inr (''\<newline>                Event: '' @ py_str repr event
        @ ''\<newline>                Area: '' @ py_str repr area
        @ ''\<newline>                Severity: '' @ py_str repr severity
        @ ''\<newline>                Description: '' @ py_str repr description
        @ ''\<newline>                Instructions: '' @ py_str repr instruction
        @ ''\<newline>            '')))))))"

text \<open>
  The f-string in the loop of \<open>get_forecast\<close>, for one period. The degree sign is the two
  bytes C2 B0.
\<close>

definition format_period :: "(pyval \<Rightarrow> string) \<Rightarrow> pyval \<Rightarrow> string result" where
  "format_period repr period =
     and_then (subscript period ''name'') (\<lambda>name.
     and_then (subscript period ''temperature'') (\<lambda>temperature.
     and_then (subscript period ''temperatureUnit'') (\<lambda>temperatureUnit.
     and_then (subscript period ''windSpeed'') (\<lambda>windSpeed.
     and_then (subscript period ''windDirection'') (\<lambda>windDirection.
     and_then (subscript period ''detailedForecast'') (\<lambda>detailedForecast.
     Inr (''\<newline>'' @ py_str repr name @ '':''
        @ ''\<newline>Temperature: '' @ py_str repr temperature @ [CHR 0xC2, CHR 0xB0]
        @ py_str repr temperatureUnit
        @ ''\<newline>Wind: '' @ py_str repr windSpeed @ '' '' @ py_str repr windDirection
        @ ''\<newline>Forecast: '' @ py_str repr detailedForecast
        @ ''\<newline>'')))))))"

section \<open>The tools\<close>

text \<open>A list comprehension: the first element whose call raises ends it.\<close>

fun comprehension :: "('a \<Rightarrow> 'b result) \<Rightarrow> 'a list \<Rightarrow> 'b list result" where
  "comprehension f [] = Inr []"
| "comprehension f (x # xs) =
     (case f x of
        Inl e \<Rightarrow> Inl e
      | Inr y \<Rightarrow> (case comprehension f xs of Inl e \<Rightarrow> Inl e | Inr ys \<Rightarrow> Inr (y # ys)))"

definition alerts_url :: "string \<Rightarrow> string" where
  "alerts_url state = NWS_API_BASE @ ''/alerts/active/area/'' @ state"

definition get_alerts :: "network \<Rightarrow> (pyval \<Rightarrow> string) \<Rightarrow> string \<Rightarrow> log \<Rightarrow> string result \<times> log" where
  "get_alerts net repr state lg =
     (let (data, lg1) = make_nws_request net (PStr (alerts_url state)) lg
      in (if \<not> truthy data then Inr ''Unable to fetch alerts or no alerts found.''
          else
            and_then (py_in ''features'' data) (\<lambda>present.
            if \<not> present then Inr ''Unable to fetch alerts or no alerts found.''
            else
              and_then (subscript data ''features'') (\<lambda>features.
              if \<not> truthy features then Inr ''No active alerts for this state.''
              else
                and_then (subscript data ''features'') (\<lambda>features.
                and_then (iterate features) (\<lambda>fs.
                and_then (comprehension (format_alert repr) fs) (\<lambda>alerts.
                Inr (join ''\<newline>---\<newline>'' alerts)))))),
          lg1))"

text \<open>The loop of \<open>get_forecast\<close> over \<^verbatim>\<open>periods[:5]\<close>, appending to \<open>forecasts\<close>.\<close>

fun forecast_loop :: "(pyval \<Rightarrow> string) \<Rightarrow> pyval list \<Rightarrow> string list \<Rightarrow> string list result" where
  "forecast_loop repr [] forecasts = Inr forecasts"
| "forecast_loop repr (period # rest) forecasts =
     (case format_period repr period of
        Inl e \<Rightarrow> Inl e
      | Inr forecast \<Rightarrow> forecast_loop repr rest (forecasts @ [forecast]))"

definition points_url :: "(pyval \<Rightarrow> string) \<Rightarrow> pyfloat \<Rightarrow> pyfloat \<Rightarrow> string" where
  "points_url repr latitude longitude =
     NWS_API_BASE @ ''/points/'' @ py_str repr (PFloat latitude) @ '','' @ py_str repr (PFloat longitude)"

definition get_forecast :: "network \<Rightarrow> (pyval \<Rightarrow> string) \<Rightarrow> pyfloat \<Rightarrow> pyfloat \<Rightarrow> log \<Rightarrow> string result \<times> log" where
  "get_forecast net repr latitude longitude lg =
     (let (points_data, lg1) = make_nws_request net (PStr (points_url repr latitude longitude)) lg
      in if \<not> truthy points_data then (Inr ''Unable to fetch forecast data for this location.'', lg1)
         else
           (case and_then (subscript points_data ''properties'') (\<lambda>p. subscript p ''forecast'') of
              Inl e \<Rightarrow> (Inl e, lg1)
            | Inr forecast_url \<Rightarrow>
                (let (forecast_data, lg2) = make_nws_request net forecast_url lg1
                 in (if \<not> truthy forecast_data then Inr ''Unable to fetch detailed forecast.''
                     else
                       and_then (subscript forecast_data ''properties'') (\<lambda>p.
                       and_then (subscript p ''periods'') (\<lambda>periods.
                       and_then (slice5 periods) (\<lambda>sliced.
                       and_then (iterate sliced) (\<lambda>ps.
                       and_then (forecast_loop repr ps []) (\<lambda>forecasts.
                       Inr (join ''\<newline>---\<newline>'' forecasts)))))),
                     lg2))))"

section \<open>The blocks as the specification describes them\<close>



text \<open>The keys that \<open>format_alert\<close> reads in the property bag, and \<open>get_forecast\<close> in a period.\<close>

definition alert_keys :: "string list" where
  "alert_keys = [''event'', ''areaDesc'', ''severity'', ''description'', ''instruction'']"

definition period_keys :: "string list" where
  "period_keys =
     [''name'', ''temperature'', ''temperatureUnit'', ''windSpeed'', ''windDirection'',
      ''detailedForecast'']"

section \<open>Sample networks and responses\<close>

text \<open>A network on which every request fails to connect.\<close>

definition offline :: network where
  "offline lg req = Inl ConnectError"

text \<open>A network that answers from a table of URLs, and with status 404 elsewhere.\<close>

definition serve :: "(string \<times> response) list \<Rightarrow> network" where
  "serve table lg req =
     (case map_of table (url req) of
        None \<Rightarrow> Inr \<lparr>status_code = 404, json = Inl JSONDecodeError\<rparr>
      | Some r \<Rightarrow> Inr r)"

text \<open>A response with status 200 and a JSON body.\<close>

definition ok :: "pyval \<Rightarrow> response" where
  "ok v = \<lparr>status_code = 200, json = Inr v\<rparr>"

text \<open>
  \<^verbatim>\<open>repr\<close> of the floats with an integral value below \<open>10 ^ 16\<close>, such as
  \<^verbatim>\<open>40.0\<close> and \<^verbatim>\<open>-97.0\<close>; it serves for the coordinates of the examples and gives no
  text to any other value.
\<close>

definition repr_integral :: "pyval \<Rightarrow> string" where
  "repr_integral v =
     (case v of
        PFloat (Finite s m e) \<Rightarrow>
          (if 0 \<le> e then (if s then ''-'' else []) @ digits (m * 2 ^ nat e) @ ''.0'' else [])
      | _ \<Rightarrow> [])"

text \<open>The coordinates 40.0 and -97.0, and the responses served for them.\<close>

definition lat40 :: pyfloat where
  "lat40 = Finite False 5 3"

definition lon97w :: pyfloat where
  "lon97w = Finite True 97 0"

definition sample_forecast_url :: string where
  "sample_forecast_url = ''https://api.weather.gov/gridpoints/TOP/32,81/forecast''"

definition sample_points :: pyval where
  "sample_points = PDict [(''properties'', PDict [(''forecast'', PStr sample_forecast_url)])]"

definition sample_period :: "string \<Rightarrow> int \<Rightarrow> pyval" where
  "sample_period name t =
     PDict [(''name'', PStr name), (''temperature'', PInt t), (''temperatureUnit'', PStr ''F''),
            (''windSpeed'', PStr ''5 mph''), (''windDirection'', PStr ''NW''),
            (''detailedForecast'', PStr ''Clear'')]"

text \<open>Five periods and a sixth entry that is no period at all.\<close>

definition sample_forecast :: pyval where
  "sample_forecast =
     PDict [(''properties'', PDict [(''periods'',
       PList [sample_period ''Mon'' 71, sample_period ''Tue'' 72, sample_period ''Wed'' 73,
              sample_period ''Thu'' 74, sample_period ''Fri'' 75, PInt 0])])]"

text \<open>Two alerts: the first without severity, the second with nothing but severity.\<close>

definition sample_alerts :: pyval where
  "sample_alerts =
     PDict [(''features'',
       PList [PDict [(''properties'', PDict [(''event'', PStr ''Flood''), (''areaDesc'', PStr ''Napa'')])],
              PDict [(''properties'', PDict [(''severity'', PStr ''Minor'')])]])]"

definition sample_points_url :: string where
  "sample_points_url = ''https://api.weather.gov/points/40.0,-97.0''"

text \<open>Points responses that are present but carry no forecast URL.\<close>

definition points_without_forecast :: pyval where
  "points_without_forecast = PDict [(''properties'', PDict [(''gridId'', PStr ''TOP'')])]"

definition points_without_properties :: pyval where
  "points_without_properties = PDict [(''id'', PStr ''https://api.weather.gov/points/40,-97'')]"

text \<open>The block of \<open>sample_period name t\<close>, with the text of \<open>t\<close>.\<close>

definition sample_block :: "string \<Rightarrow> string \<Rightarrow> string" where
  "sample_block name t =
     ''\<newline>'' @ name @ '':\<newline>Temperature: '' @ t @ [CHR 0xC2, CHR 0xB0]
     @ ''F\<newline>Wind: 5 mph NW\<newline>Forecast: Clear\<newline>''"

text \<open>An alerts response without "features", and features with and without a property bag.\<close>

definition dict_without_features :: pyval where
  "dict_without_features = PDict [(''title'', PStr ''Not Found''), (''status'', PInt 404)]"

definition flood_feature :: pyval where
  "flood_feature = PDict [(''id'', PStr ''a''), (''properties'', PDict [(''event'', PStr ''Flood'')])]"

definition flood_feature' :: pyval where
  "flood_feature' =
     PDict [(''properties'', PDict [(''sent'', PStr ''2024-05-01''), (''event'', PStr ''Flood'')]),
            (''id'', PStr ''b'')]"

definition bare_feature :: pyval where
  "bare_feature = PDict [(''id'', PStr ''a''), (''type'', PStr ''Feature'')]"

section \<open>Lemmas about the model\<close>

lemma make_nws_request_pair:
  "make_nws_request net u lg = (fst (make_nws_request net u lg), lg @ [u])"
  by (simp add: make_nws_request_def split: sum.splits)

lemma make_nws_request_eq:
  "fst (make_nws_request net u lg) = v \<Longrightarrow> make_nws_request net u lg = (v, lg @ [u])"
  using make_nws_request_pair [of net u lg] by simp

lemma subscript_Inr_truthy: "subscript v k = Inr x \<Longrightarrow> truthy v"
  by (cases v) (auto split: option.splits)


text \<open>The loop appends the blocks of its periods, in their order, when each one formats.\<close>

lemma forecast_loop_blocks:
  "map (format_period repr) ps = map Inr bs \<Longrightarrow> forecast_loop repr ps acc = Inr (acc @ bs)"
proof (induction ps arbitrary: bs acc)
  case Nil
  then show ?case by simp
next
  case (Cons p ps)
  then obtain b bs' where bs: "bs = b # bs'" by (cases bs) auto
  with Cons.prems have "format_period repr p = Inr b" "map (format_period repr) ps = map Inr bs'"
    by simp_all
  with Cons.IH [of bs' "acc @ [b]"] bs show ?case by simp
qed


lemma comprehension_fails:
  "x \<in> set xs \<Longrightarrow> f x = Inl e \<Longrightarrow> \<exists>e'. comprehension f xs = Inl e'"
  by (induction xs) (auto split: sum.splits)


subsection \<open>The samples, evaluated\<close>

lemma points_url_sample: "points_url repr_integral lat40 lon97w = sample_points_url"
  by (simp add: points_url_def repr_integral_def lat40_def lon97w_def NWS_API_BASE_def
        sample_points_url_def digits.simps)

lemma serve_one:
  "fst (make_nws_request (serve [(u, ok v)]) (PStr u) lg) = v"
  by (simp add: make_nws_request_def try_request_def client_get_def raise_for_status_def
        and_then_def serve_def ok_def)

lemma offline_absent: "fst (make_nws_request offline (PStr u) lg) = PNone"
  by (simp add: make_nws_request_def try_request_def client_get_def and_then_def offline_def)

lemma serve_found:
  "map_of table u = Some (ok v) \<Longrightarrow> fst (make_nws_request (serve table) (PStr u) lg) = v"
  by (simp add: make_nws_request_def try_request_def client_get_def raise_for_status_def
        and_then_def serve_def ok_def)

lemma serve_missing:
  "map_of table u = None \<Longrightarrow> fst (make_nws_request (serve table) (PStr u) lg) = PNone"
  by (simp add: make_nws_request_def try_request_def client_get_def raise_for_status_def
        and_then_def serve_def)

lemma sample_urls_differ: "sample_points_url \<noteq> sample_forecast_url"
  by (simp add: sample_points_url_def sample_forecast_url_def)

lemma format_sample_period:
  "format_period repr (sample_period name t) = Inr (sample_block name (int_str t))"
  by (simp add: format_period_def sample_period_def sample_block_def and_then_def)

lemma int_str_samples:
  "int_str 71 = ''71''" "int_str 72 = ''72''" "int_str 73 = ''73''" "int_str 74 = ''74''" "int_str 75 = ''75''"
  by (simp_all add: int_str_def digits.simps)

section \<open>The claims\<close>

text \<open>
  C8. For every URL, \<open>make_nws_request\<close> returns the absent-signal \<open>PNone\<close> when the
  request fails to connect or times out (the client raises), when the status is not a
  success, and when the body is not JSON; with a success status and a JSON body it returns
  the parsed value. It returns a value in each case: no exception reaches the caller.
\<close>

theorem make_nws_request_absent_or_parsed:
  "(let req = \<lparr>url = s, headers = [(''User-Agent'', ''weather-app/1.0''), (''Accept'', ''application/geo+json'')], timeout = 30\<rparr>
    in (net lg req = Inl e \<longrightarrow> make_nws_request net (PStr s) lg = (PNone, lg @ [PStr s]))
       \<and> (net lg req = Inr r \<and> \<not> (200 \<le> status_code r \<and> status_code r \<le> 299)
            \<longrightarrow> make_nws_request net (PStr s) lg = (PNone, lg @ [PStr s]))
       \<and> (net lg req = Inr r \<and> 200 \<le> status_code r \<and> status_code r \<le> 299 \<and> json r = Inl e'
            \<longrightarrow> make_nws_request net (PStr s) lg = (PNone, lg @ [PStr s]))
       \<and> (net lg req = Inr r \<and> 200 \<le> status_code r \<and> status_code r \<le> 299 \<and> json r = Inr v
            \<longrightarrow> make_nws_request net (PStr s) lg = (v, lg @ [PStr s])))"
  by (simp add: make_nws_request_def try_request_def client_get_def raise_for_status_def
        and_then_def USER_AGENT_def Let_def)

theorem make_nws_request_absent_or_parsed_witness:
  "make_nws_request offline (PStr ''u'') [] = (PNone, [PStr ''u''])
   \<and> make_nws_request (serve []) (PStr ''u'') [] = (PNone, [PStr ''u''])
   \<and> make_nws_request (serve [(''u'', \<lparr>status_code = 200, json = Inl JSONDecodeError\<rparr>)]) (PStr ''u'') []
        = (PNone, [PStr ''u''])
   \<and> make_nws_request (serve [(''u'', ok sample_alerts)]) (PStr ''u'') [] = (sample_alerts, [PStr ''u''])"
  using make_nws_request_absent_or_parsed [where net = offline and s = "''u''" and lg = "[]" and e = ConnectError]
    make_nws_request_absent_or_parsed [where net = "serve []" and s = "''u''" and lg = "[]"
      and r = "\<lparr>status_code = 404, json = Inl JSONDecodeError\<rparr>"]
    make_nws_request_absent_or_parsed [where net = "serve [(''u'', \<lparr>status_code = 200, json = Inl JSONDecodeError\<rparr>)]"
      and s = "''u''" and lg = "[]" and r = "\<lparr>status_code = 200, json = Inl JSONDecodeError\<rparr>" and e' = JSONDecodeError]
    make_nws_request_absent_or_parsed [where net = "serve [(''u'', ok sample_alerts)]"
      and s = "''u''" and lg = "[]" and r = "ok sample_alerts" and v = sample_alerts]
  by (simp add: Let_def offline_def serve_def ok_def)

text \<open>
  C2. For every latitude and longitude, if the first fetch (the points lookup) returns the
  absent-signal, \<open>get_forecast\<close> returns exactly "Unable to fetch forecast data for this
  location." and the only call of the request helper is the points lookup: the log grows by
  one entry.
\<close>

theorem get_forecast_points_absent:
  assumes "fst (make_nws_request net (PStr (points_url repr lat lon)) lg) = PNone"
  shows "get_forecast net repr lat lon lg =
           (Inr ''Unable to fetch forecast data for this location.'', lg @ [PStr (points_url repr lat lon)])
         \<and> length (snd (get_forecast net repr lat lon lg)) = length lg + 1"
proof -
  have "make_nws_request net (PStr (points_url repr lat lon)) lg = (PNone, lg @ [PStr (points_url repr lat lon)])"
    using assms make_nws_request_pair [of net "PStr (points_url repr lat lon)" lg] by simp
  then show ?thesis by (simp add: get_forecast_def)
qed

theorem get_forecast_points_absent_witness:
  "fst (make_nws_request offline (PStr (points_url repr_integral lat40 lon97w)) []) = PNone
   \<and> get_forecast offline repr_integral lat40 lon97w []
       = (Inr ''Unable to fetch forecast data for this location.'', [PStr sample_points_url])
   \<and> length (snd (get_forecast offline repr_integral lat40 lon97w [])) = 1"
proof -
  have h: "fst (make_nws_request offline (PStr (points_url repr_integral lat40 lon97w)) []) = PNone"
    by (rule offline_absent)
  show ?thesis using h get_forecast_points_absent [OF h]
    by (simp add: points_url_sample)
qed

text \<open>
  C7. For every latitude and longitude, if the points lookup returns a response with a
  forecast URL under "properties" and the second fetch, of that URL, returns the
  absent-signal, \<open>get_forecast\<close> returns exactly "Unable to fetch detailed forecast.".
\<close>

theorem get_forecast_detail_absent:
  assumes "fst (make_nws_request net (PStr (points_url repr lat lon)) lg) = points_data"
    and "subscript points_data ''properties'' = Inr props"
    and "subscript props ''forecast'' = Inr forecast_url"
    and "fst (make_nws_request net forecast_url (lg @ [PStr (points_url repr lat lon)])) = PNone"
  shows "get_forecast net repr lat lon lg =
           (Inr ''Unable to fetch detailed forecast.'', lg @ [PStr (points_url repr lat lon), forecast_url])"
proof -
  let ?u = "PStr (points_url repr lat lon)"
  have 1: "make_nws_request net ?u lg = (points_data, lg @ [?u])"
    using assms(1) make_nws_request_pair [of net ?u lg] by simp
  have 2: "make_nws_request net forecast_url (lg @ [?u]) = (PNone, lg @ [?u, forecast_url])"
    using assms(4) make_nws_request_pair [of net forecast_url "lg @ [?u]"] by simp
  have 3: "truthy points_data" using assms(2) by (rule subscript_Inr_truthy)
  show ?thesis using 1 2 3 assms(2,3) by (simp add: get_forecast_def and_then_def)
qed

theorem get_forecast_detail_absent_witness:
  "fst (make_nws_request (serve [(sample_points_url, ok sample_points)])
         (PStr (points_url repr_integral lat40 lon97w)) []) = sample_points
   \<and> subscript sample_points ''properties'' = Inr (PDict [(''forecast'', PStr sample_forecast_url)])
   \<and> subscript (PDict [(''forecast'', PStr sample_forecast_url)]) ''forecast'' = Inr (PStr sample_forecast_url)
   \<and> fst (make_nws_request (serve [(sample_points_url, ok sample_points)]) (PStr sample_forecast_url)
           ([] @ [PStr (points_url repr_integral lat40 lon97w)])) = PNone
   \<and> get_forecast (serve [(sample_points_url, ok sample_points)]) repr_integral lat40 lon97w []
       = (Inr ''Unable to fetch detailed forecast.'', [PStr sample_points_url, PStr sample_forecast_url])"
proof -
  let ?net = "serve [(sample_points_url, ok sample_points)]"
  have h1: "fst (make_nws_request ?net (PStr (points_url repr_integral lat40 lon97w)) []) = sample_points"
    by (simp add: points_url_sample serve_one)
  have h2: "subscript sample_points ''properties'' = Inr (PDict [(''forecast'', PStr sample_forecast_url)])"
    by (simp add: sample_points_def)
  have h3: "subscript (PDict [(''forecast'', PStr sample_forecast_url)]) ''forecast'' = Inr (PStr sample_forecast_url)"
    by simp
  have h4: "fst (make_nws_request ?net (PStr sample_forecast_url)
                  ([] @ [PStr (points_url repr_integral lat40 lon97w)])) = PNone"
    using sample_urls_differ by (simp add: serve_missing)
  show ?thesis using h1 h2 h3 h4 get_forecast_detail_absent [OF h1 h2 h3 h4]
    by (simp add: points_url_sample)
qed

text \<open>
  C1. A points response that is present but lacks the forecast URL (no "properties" key,
  or no "forecast" key inside it) should be answered with a fixed message, as
  \<open>get_alerts\<close> answers a response without "features". \<open>get_forecast\<close> does not do
  so: served a points response without "forecast", and one without "properties", the call
  ends in \<^verbatim>\<open>KeyError\<close> after the points lookup.
\<close>

theorem get_forecast_missing_field_keyerror:
  "get_forecast (serve [(sample_points_url, ok points_without_forecast)]) repr_integral lat40 lon97w []
     = (Inl (KeyError ''forecast''), [PStr sample_points_url])
   \<and> get_forecast (serve [(sample_points_url, ok points_without_properties)]) repr_integral lat40 lon97w []
     = (Inl (KeyError ''properties''), [PStr sample_points_url])"
  by (simp add: get_forecast_def points_url_sample make_nws_request_eq [OF serve_one]
       points_without_forecast_def points_without_properties_def and_then_def)

text \<open>
  C3. For every forecast response whose sequence of periods has at least five entries,
  the first five formatting to the blocks \<open>b1\<close>, ..., \<open>b5\<close>, \<open>get_forecast\<close> returns
  exactly these five blocks, in the order of the response, with "\n---\n" between one
  block and the next; the periods after the fifth take no part.
\<close>

theorem get_forecast_first_five:
  assumes "fst (make_nws_request net (PStr (points_url repr lat lon)) lg) = points_data"
    and "subscript points_data ''properties'' = Inr props"
    and "subscript props ''forecast'' = Inr forecast_url"
    and "fst (make_nws_request net forecast_url (lg @ [PStr (points_url repr lat lon)])) = forecast_data"
    and "subscript forecast_data ''properties'' = Inr fprops"
    and "subscript fprops ''periods'' = Inr (PList periods)"
    and "5 \<le> length periods"
    and "map (format_period repr) (take 5 periods) = [Inr b1, Inr b2, Inr b3, Inr b4, Inr b5]"
  shows "fst (get_forecast net repr lat lon lg)
           = Inr (b1 @ ''\<newline>---\<newline>'' @ b2 @ ''\<newline>---\<newline>'' @ b3 @ ''\<newline>---\<newline>'' @ b4
                  @ ''\<newline>---\<newline>'' @ b5)"
proof -
  let ?u = "PStr (points_url repr lat lon)"
  have 1: "make_nws_request net ?u lg = (points_data, lg @ [?u])"
    using assms(1) by (rule make_nws_request_eq)
  have 2: "make_nws_request net forecast_url (lg @ [?u]) = (forecast_data, lg @ [?u, forecast_url])"
    using make_nws_request_eq [OF assms(4)] by simp
  have 3: "truthy points_data" using assms(2) by (rule subscript_Inr_truthy)
  have 4: "truthy forecast_data" using assms(5) by (rule subscript_Inr_truthy)
  have "map (format_period repr) (take 5 periods) = map Inr [b1, b2, b3, b4, b5]"
    using assms(8) by simp
  then have 5: "forecast_loop repr (take 5 periods) [] = Inr ([] @ [b1, b2, b3, b4, b5])"
    by (rule forecast_loop_blocks)
  show ?thesis using 1 2 3 4 5 assms(2,3,5,6) by (simp add: get_forecast_def and_then_def)
qed

theorem get_forecast_first_five_witness:
  "fst (get_forecast (serve [(sample_points_url, ok sample_points), (sample_forecast_url, ok sample_forecast)])
         repr_integral lat40 lon97w [])
     = Inr (''\<newline>Mon:\<newline>Temperature: 71'' @ [CHR 0xC2, CHR 0xB0]
            @ ''F\<newline>Wind: 5 mph NW\<newline>Forecast: Clear\<newline>''
          @ ''\<newline>---\<newline>''
          @ ''\<newline>Tue:\<newline>Temperature: 72'' @ [CHR 0xC2, CHR 0xB0]
            @ ''F\<newline>Wind: 5 mph NW\<newline>Forecast: Clear\<newline>''
          @ ''\<newline>---\<newline>''
          @ ''\<newline>Wed:\<newline>Temperature: 73'' @ [CHR 0xC2, CHR 0xB0]
            @ ''F\<newline>Wind: 5 mph NW\<newline>Forecast: Clear\<newline>''
          @ ''\<newline>---\<newline>''
          @ ''\<newline>Thu:\<newline>Temperature: 74'' @ [CHR 0xC2, CHR 0xB0]
            @ ''F\<newline>Wind: 5 mph NW\<newline>Forecast: Clear\<newline>''
          @ ''\<newline>---\<newline>''
          @ ''\<newline>Fri:\<newline>Temperature: 75'' @ [CHR 0xC2, CHR 0xB0]
            @ ''F\<newline>Wind: 5 mph NW\<newline>Forecast: Clear\<newline>'')"
proof -
  let ?net = "serve [(sample_points_url, ok sample_points), (sample_forecast_url, ok sample_forecast)]"
  let ?periods = "[sample_period ''Mon'' 71, sample_period ''Tue'' 72, sample_period ''Wed'' 73,
              sample_period ''Thu'' 74, sample_period ''Fri'' 75, PInt 0]"
  have h1: "fst (make_nws_request ?net (PStr (points_url repr_integral lat40 lon97w)) []) = sample_points"
    by (simp add: points_url_sample serve_found)
  have h2: "subscript sample_points ''properties'' = Inr (PDict [(''forecast'', PStr sample_forecast_url)])"
    by (simp add: sample_points_def)
  have h3: "subscript (PDict [(''forecast'', PStr sample_forecast_url)]) ''forecast'' = Inr (PStr sample_forecast_url)"
    by simp
  have h4: "fst (make_nws_request ?net (PStr sample_forecast_url)
                  ([] @ [PStr (points_url repr_integral lat40 lon97w)])) = sample_forecast"
    using sample_urls_differ by (simp add: serve_found)
  have h5: "subscript sample_forecast ''properties'' = Inr (PDict [(''periods'', PList ?periods)])"
    by (simp add: sample_forecast_def)
  have h6: "subscript (PDict [(''periods'', PList ?periods)]) ''periods'' = Inr (PList ?periods)"
    by simp
  have h7: "5 \<le> length ?periods" by simp
  have h8: "map (format_period repr_integral) (take 5 ?periods)
              = [Inr (sample_block ''Mon'' ''71''), Inr (sample_block ''Tue'' ''72''),
                 Inr (sample_block ''Wed'' ''73''), Inr (sample_block ''Thu'' ''74''),
                 Inr (sample_block ''Fri'' ''75'')]"
    by (simp add: format_sample_period int_str_samples)
  show ?thesis using get_forecast_first_five [OF h1 h2 h3 h4 h5 h6 h7 h8]
    by (simp add: sample_block_def)
qed



text \<open>
  C5. For every alerts response whose "features" is an empty sequence, \<open>get_alerts\<close>
  returns exactly "No active alerts for this state.".
\<close>

theorem get_alerts_none_active:
  assumes "fst (make_nws_request net (PStr (alerts_url state)) lg) = PDict kvs"
    and "map_of kvs ''features'' = Some (PList [])"
  shows "fst (get_alerts net repr state lg) = Inr ''No active alerts for this state.''"
proof -
  let ?u = "PStr (alerts_url state)"
  have 1: "make_nws_request net ?u lg = (PDict kvs, lg @ [?u])"
    using assms(1) make_nws_request_pair [of net ?u lg] by simp
  have 2: "kvs \<noteq> []" using assms(2) by auto
  show ?thesis using 1 2 assms(2) by (simp add: get_alerts_def and_then_def)
qed

theorem get_alerts_none_active_witness:
  "fst (make_nws_request (serve [(alerts_url ''CA'', ok (PDict [(''features'', PList [])]))])
         (PStr (alerts_url ''CA'')) []) = PDict [(''features'', PList [])]
   \<and> map_of [(''features'', PList [])] ''features'' = Some (PList [])
   \<and> fst (get_alerts (serve [(alerts_url ''CA'', ok (PDict [(''features'', PList [])]))]) repr_integral ''CA'' [])
       = Inr ''No active alerts for this state.''"
proof -
  have h1: "fst (make_nws_request (serve [(alerts_url ''CA'', ok (PDict [(''features'', PList [])]))])
         (PStr (alerts_url ''CA'')) []) = PDict [(''features'', PList [])]"
    by (rule serve_one)
  have h2: "map_of [(''features'', PList [])] ''features'' = Some (PList [])" by simp
  show ?thesis using h1 h2 get_alerts_none_active [OF h1 h2, of repr_integral] by simp
qed

text \<open>
  C6. When the fetch returns the absent-signal, and when the response is a dict without
  the key "features", \<open>get_alerts\<close> returns exactly "Unable to fetch alerts or no alerts
  found.".
\<close>

theorem get_alerts_unable:
  assumes "fst (make_nws_request net (PStr (alerts_url state)) lg) = data"
    and "data = PNone \<or> (\<exists>kvs. data = PDict kvs \<and> map_of kvs ''features'' = None)"
  shows "fst (get_alerts net repr state lg) = Inr ''Unable to fetch alerts or no alerts found.''"
proof -
  let ?u = "PStr (alerts_url state)"
  have 1: "make_nws_request net ?u lg = (data, lg @ [?u])"
    using assms(1) make_nws_request_pair [of net ?u lg] by simp
  show ?thesis using 1 assms(2) by (auto simp add: get_alerts_def and_then_def)
qed

theorem get_alerts_unable_witness:
  "fst (get_alerts offline repr_integral ''CA'' []) = Inr ''Unable to fetch alerts or no alerts found.''
   \<and> fst (get_alerts (serve [(alerts_url ''CA'', ok dict_without_features)]) repr_integral ''CA'' [])
       = Inr ''Unable to fetch alerts or no alerts found.''"
proof -
  have a1: "fst (make_nws_request offline (PStr (alerts_url ''CA'')) []) = PNone"
    by (rule offline_absent)
  have a2: "PNone = PNone \<or> (\<exists>kvs. PNone = PDict kvs \<and> map_of kvs ''features'' = None)"
    by simp
  have b1: "fst (make_nws_request (serve [(alerts_url ''CA'', ok dict_without_features)])
              (PStr (alerts_url ''CA'')) []) = dict_without_features"
    by (rule serve_one)
  have b2: "dict_without_features = PNone
            \<or> (\<exists>kvs. dict_without_features = PDict kvs \<and> map_of kvs ''features'' = None)"
    by (simp add: dict_without_features_def)
  show ?thesis
    using get_alerts_unable [OF a1 a2, of repr_integral] get_alerts_unable [OF b1 b2, of repr_integral]
    by simp
qed

text \<open>
  C9. Formatting is deterministic. The result of \<open>format_alert\<close> is fixed by the values
  under the five keys it reads in the property bag, and the block of a period by the
  values under the six keys it reads: two records that agree there, and so two identical
  records, give the identical result. Nothing else (no clock, no random source, no locale)
  is an input of either function.
\<close>

theorem formatting_deterministic:
  "(subscript f ''properties'' = Inr (PDict bag) \<and> subscript f' ''properties'' = Inr (PDict bag')
      \<and> (\<forall>k \<in> set alert_keys. map_of bag k = map_of bag' k)
    \<longrightarrow> format_alert repr f = format_alert repr f')
   \<and> ((\<forall>k \<in> set period_keys. subscript p k = subscript p' k)
    \<longrightarrow> format_period repr p = format_period repr p')"
  by (simp add: format_alert_def format_period_def alert_keys_def period_keys_def and_then_def)

theorem formatting_deterministic_witness:
  "format_alert repr_integral flood_feature = format_alert repr_integral flood_feature'
   \<and> format_period repr_integral (sample_period ''Mon'' 71)
       = format_period repr_integral
           (PDict [(''number'', PInt 1), (''name'', PStr ''Mon''), (''temperature'', PInt 71),
                   (''temperatureUnit'', PStr ''F''), (''windSpeed'', PStr ''5 mph''),
                   (''windDirection'', PStr ''NW''), (''detailedForecast'', PStr ''Clear'')])"
  using formatting_deterministic [where f = flood_feature and f' = flood_feature'
      and bag = "[(''event'', PStr ''Flood'')]"
      and bag' = "[(''sent'', PStr ''2024-05-01''), (''event'', PStr ''Flood'')]"
      and p = "sample_period ''Mon'' 71"
      and p' = "PDict [(''number'', PInt 1), (''name'', PStr ''Mon''), (''temperature'', PInt 71),
                   (''temperatureUnit'', PStr ''F''), (''windSpeed'', PStr ''5 mph''),
                   (''windDirection'', PStr ''NW''), (''detailedForecast'', PStr ''Clear'')]"
      and repr = repr_integral]
  by (simp add: flood_feature_def flood_feature'_def alert_keys_def period_keys_def sample_period_def)

text \<open>
  C10. The property bag itself is required: on a feature without the key "properties",
  \<open>format_alert\<close> fails with \<^verbatim>\<open>KeyError\<close> instead of defaulting, and so does every call
  of \<open>get_alerts\<close> whose response holds such a feature in its "features" list.
\<close>

theorem missing_properties_is_fatal:
  assumes "map_of fk ''properties'' = None"
  shows "format_alert repr (PDict fk) = Inl (KeyError ''properties'')
         \<and> (fst (make_nws_request net (PStr (alerts_url state)) lg) = PDict kvs
              \<and> map_of kvs ''features'' = Some (PList features) \<and> PDict fk \<in> set features
            \<longrightarrow> (\<exists>e. fst (get_alerts net repr state lg) = Inl e))"
proof -
  have fa: "format_alert repr (PDict fk) = Inl (KeyError ''properties'')"
    using assms by (simp add: format_alert_def and_then_def)
  have "\<exists>e. fst (get_alerts net repr state lg) = Inl e"
    if h: "fst (make_nws_request net (PStr (alerts_url state)) lg) = PDict kvs"
      "map_of kvs ''features'' = Some (PList features)" "PDict fk \<in> set features"
  proof -
    let ?u = "PStr (alerts_url state)"
    have 1: "make_nws_request net ?u lg = (PDict kvs, lg @ [?u])"
      using h(1) make_nws_request_pair [of net ?u lg] by simp
    have 2: "kvs \<noteq> []" "features \<noteq> []" using h(2,3) by auto
    obtain e where 3: "comprehension (format_alert repr) features = Inl e"
      using comprehension_fails [of "PDict fk" features "format_alert repr", OF h(3) fa] by blast
    show ?thesis using 1 2 3 h(2) by (simp add: get_alerts_def and_then_def)
  qed
  with fa show ?thesis by blast
qed

theorem missing_properties_is_fatal_witness:
  "format_alert repr_integral bare_feature = Inl (KeyError ''properties'')
   \<and> (\<exists>e. fst (get_alerts (serve [(alerts_url ''CA'', ok (PDict [(''features'', PList [flood_feature, bare_feature])]))])
               repr_integral ''CA'' []) = Inl e)"
proof -
  have h: "map_of [(''id'', PStr ''a''), (''type'', PStr ''Feature'')] ''properties'' = None"
    by simp
  have 1: "fst (make_nws_request (serve [(alerts_url ''CA'', ok (PDict [(''features'', PList [flood_feature, bare_feature])]))])
              (PStr (alerts_url ''CA'')) []) = PDict [(''features'', PList [flood_feature, bare_feature])]"
    by (rule serve_one)
  show ?thesis
    using 1 missing_properties_is_fatal [OF h, of repr_integral
        "serve [(alerts_url ''CA'', ok (PDict [(''features'', PList [flood_feature, bare_feature])]))]"
        "''CA''" "[]" "[(''features'', PList [flood_feature, bare_feature])]" "[flood_feature, bare_feature]"]
    by (simp add: bare_feature_def)
qed

end
